theory Spec2Isabelle
  imports Complex_Main
begin

section \<open>Data model of app.py\<close>

text \<open>
  Timestamps (\<^verbatim>\<open>datetime\<close> values) are integers counting seconds, so that
  \<^verbatim>\<open>timedelta(seconds=30)\<close> is 30. Identifiers, statuses and priorities are the strings
  the program stores in its \<^verbatim>\<open>String\<close> columns. A nullable column is an option.
\<close>

type_synonym time = int

text \<open>
  The model class \<^verbatim>\<open>RenderTask\<close> (lines 18-25). The fields carry the prefix \<open>t_\<close>
  because both model classes have columns called \<^verbatim>\<open>id\<close> and \<^verbatim>\<open>status\<close>.
\<close>

record RenderTask =
  t_id :: string
  t_status :: string
  t_priority :: string
  t_progress :: real
  t_created_at :: time
  t_updated_at :: time
  t_worker_id :: "string option"

text \<open>The model class \<^verbatim>\<open>Worker\<close> (lines 33-37), fields prefixed with \<open>w_\<close>.\<close>

record Worker =
  w_id :: string
  w_status :: string
  w_last_heartbeat :: "time option"
  w_current_task_id :: "string option"

text \<open>
  The committed contents of the database: the rows of the two tables, in the order in
  which they were inserted.
\<close>

record db =
  tasks :: "RenderTask list"
  workers :: "Worker list"

definition empty_db :: db where
  "empty_db = \<lparr>tasks = [], workers = []\<rparr>"

text \<open>Line 15.\<close>

definition PRIORITY :: "string list" where
  "PRIORITY = [''RUSH'', ''HIGH'', ''MEDIUM'', ''LOW'']"

text \<open>
  What a handler hands back: a JSON body with an HTTP status code (200 when the source
  gives none), or an exception that leaves the handler.
\<close>

datatype json =
    JError string
  | JMessage string
  | JTaskAdded string
  | JTaskList "(string \<times> string \<times> string \<times> real) list"
  | JTaskInfo string string string real time time
  | JWorkerList "(string \<times> string \<times> time option) list"
  | JTaskAssigned string
  | JWorkerStatus string
  | JStatusProgress string real
  | JCompleted
  | JHeartbeat

datatype exn = TypeError | IntegrityError

datatype response = Response json nat | Raised exn

section \<open>Library calls used by the handlers\<close>

text \<open>
  \<^verbatim>\<open>datetime()\<close> (lines 173, 195, 210, 224): the class \<^verbatim>\<open>datetime.datetime\<close> is
  called with no argument, but its arguments year, month and day are required, so the
  call raises \<^verbatim>\<open>TypeError\<close> and yields no timestamp.
\<close>

definition datetime :: "exn + time" where
  "datetime = Inl TypeError"

text \<open>\<^verbatim>\<open>db.session.get(RenderTask, task_id)\<close>: the row with that primary key, if any.\<close>

definition get_task :: "db \<Rightarrow> string \<Rightarrow> RenderTask option" where
  "get_task s task_id = find (\<lambda>t. t_id t = task_id) (tasks s)"

definition get_worker :: "db \<Rightarrow> string \<Rightarrow> Worker option" where
  "get_worker s worker_id = find (\<lambda>w. w_id w = worker_id) (workers s)"

text \<open>
  \<^verbatim>\<open>db.session.add(row); db.session.commit()\<close>: the primary key is unique, so the
  commit of a row whose id is already in the table raises \<^verbatim>\<open>IntegrityError\<close>.
\<close>

definition add_task :: "db \<Rightarrow> RenderTask \<Rightarrow> exn + db" where
  "add_task s t =
     (if get_task s (t_id t) \<noteq> None then Inl IntegrityError
      else Inr (s\<lparr>tasks := tasks s @ [t]\<rparr>))"

definition add_worker :: "db \<Rightarrow> Worker \<Rightarrow> exn + db" where
  "add_worker s w =
     (if get_worker s (w_id w) \<noteq> None then Inl IntegrityError
      else Inr (s\<lparr>workers := workers s @ [w]\<rparr>))"

text \<open>
  Committing a changed row object writes it back to the row with its primary key.
\<close>

definition put_task :: "RenderTask \<Rightarrow> db \<Rightarrow> db" where
  "put_task t s = s\<lparr>tasks := map (\<lambda>u. if t_id u = t_id t then t else u) (tasks s)\<rparr>"

definition put_worker :: "Worker \<Rightarrow> db \<Rightarrow> db" where
  "put_worker w s = s\<lparr>workers := map (\<lambda>u. if w_id u = w_id w then w else u) (workers s)\<rparr>"

text \<open>
  \<^verbatim>\<open>ordering\<close> (lines 27-30) is the SQL expression
  \<^verbatim>\<open>CASE priority WHEN 'RUSH' THEN 0 WHEN 'HIGH' THEN 1 WHEN 'MEDIUM' THEN 2 WHEN 'LOW' THEN 3 END\<close>,
  the index of the priority in \<open>PRIORITY\<close>. It has no \<^verbatim>\<open>ELSE\<close>, so any other
  priority gives \<^verbatim>\<open>NULL\<close>, here \<open>None\<close>.
\<close>

fun index_of :: "string \<Rightarrow> string list \<Rightarrow> nat option" where
  "index_of v [] = None"
| "index_of v (x # xs) =
     (if v = x then Some 0 else map_option Suc (index_of v xs))"

definition ordering :: "RenderTask \<Rightarrow> nat option" where
  "ordering t = index_of (t_priority t) PRIORITY"

text \<open>
  The sort key of \<^verbatim>\<open>ORDER BY ordering\<close> in SQLite (line 10 configures it), ascending:
  \<^verbatim>\<open>NULL\<close> sorts before every number.
\<close>

definition order_key :: "RenderTask \<Rightarrow> nat" where
  "order_key t = (case ordering t of None \<Rightarrow> 0 | Some i \<Rightarrow> Suc i)"

text \<open>
  \<^verbatim>\<open>RenderTask.query.filter(RenderTask.status == 'pending').order_by(ordering).first()\<close>
  (line 146). SQL leaves the order of rows with equal sort keys to the engine; the
  model keeps them in table order (SQLite reads the table in insertion order and
  \<open>sort_key\<close> is stable). No other column takes part in the ordering.
\<close>

definition next_pending :: "db \<Rightarrow> RenderTask option" where
  "next_pending s =
     (case sort_key order_key (filter (\<lambda>t. t_status t = ''pending'') (tasks s)) of
        [] \<Rightarrow> None
      | t # _ \<Rightarrow> Some t)"

section \<open>The handlers\<close>

text \<open>
  Every handler takes the committed database and returns its response with the
  committed database afterwards. Changes made to row objects are written only by
  \<^verbatim>\<open>db.session.commit()\<close>; a handler that returns or raises before its commit leaves
  the database as it was (Flask-SQLAlchemy discards the session when the request ends).
  The clock reading \<^verbatim>\<open>datetime.now()\<close> and the fresh \<^verbatim>\<open>uuid.uuid4()\<close> are arguments.
\<close>

text \<open>
  \<^verbatim>\<open>create_render\<close> (lines 66-81). \<open>priority\<close> is the \<^verbatim>\<open>priority\<close> entry of the
  request body, \<open>None\<close> when it is absent. The column defaults of \<^verbatim>\<open>created_at\<close> and
  \<^verbatim>\<open>updated_at\<close> are \<^verbatim>\<open>datetime.now()\<close> evaluated once, when the module is loaded:
  \<open>import_time\<close>.
\<close>

definition create_render :: "db \<Rightarrow> time \<Rightarrow> string \<Rightarrow> string option \<Rightarrow> response \<times> db" where
  "create_render s import_time task_id priority_arg =
     (let priority = (case priority_arg of None \<Rightarrow> ''MEDIUM'' | Some p \<Rightarrow> p) in
      if priority \<notin> set PRIORITY then (Response (JError ''Invalid priority'') 400, s)
      else
        (let new_task = \<lparr>t_id = task_id, t_status = ''pending'', t_priority = priority,
                         t_progress = 0, t_created_at = import_time,
                         t_updated_at = import_time, t_worker_id = None\<rparr>
         in case add_task s new_task of
              Inl e \<Rightarrow> (Raised e, s)
            | Inr s' \<Rightarrow> (Response (JTaskAdded task_id) 201, s')))"

text \<open>\<^verbatim>\<open>get_renders\<close> (lines 86-89).\<close>

definition get_renders :: "db \<Rightarrow> response \<times> db" where
  "get_renders s =
     (Response (JTaskList
        (map (\<lambda>t. (t_id t, t_status t, t_priority t, t_progress t)) (tasks s))) 200, s)"

text \<open>\<^verbatim>\<open>get_render_status\<close> (lines 94-107).\<close>

definition get_render_status :: "db \<Rightarrow> string \<Rightarrow> response \<times> db" where
  "get_render_status s task_id =
     (case get_task s task_id of
        None \<Rightarrow> (Response (JError ''Task not found'') 404, s)
      | Some t \<Rightarrow>
          (Response (JTaskInfo (t_id t) (t_status t) (t_priority t) (t_progress t)
                               (t_created_at t) (t_updated_at t)) 200, s))"

text \<open>\<^verbatim>\<open>get_workers\<close> (lines 112-115).\<close>

definition get_workers :: "db \<Rightarrow> response \<times> db" where
  "get_workers s =
     (Response (JWorkerList
        (map (\<lambda>w. (w_id w, w_status w, w_last_heartbeat w)) (workers s))) 200, s)"

text \<open>
  \<^verbatim>\<open>worker_request_task\<close> (lines 120-158).

  Line 126 filters with the Python expression
  \<^verbatim>\<open>RenderTask.status == 'rendering' and RenderTask.worker_id == worker_id\<close>. Python's
  \<^verbatim>\<open>and\<close> first takes the truth value of its left operand; for an SQLAlchemy
  equality between a column and a literal that is false (the two sides are different
  objects), so \<^verbatim>\<open>and\<close> returns the left operand and the right one is dropped. The
  query is therefore the first task with status \<^verbatim>\<open>rendering\<close>, of any worker.

  Lines 130-139 commit the new worker before the lookups that follow, so the early
  returns of lines 143 and 148 come after that commit.
\<close>

definition worker_request_task :: "db \<Rightarrow> time \<Rightarrow> string \<Rightarrow> string \<Rightarrow> response \<times> db" where
  "worker_request_task s now uuid4 worker_id_arg =
     (let noWorkers = length (filter (\<lambda>w. w_status w = ''Ready'') (workers s));
          renderingTask = find (\<lambda>t. t_status t = ''rendering'') (tasks s)
      in if renderingTask \<noteq> None then (Response (JMessage ''Task is processing'') 404, s)
         else
           (case (if noWorkers = 0
                  then map_sum id (\<lambda>s'. (s', uuid4))
                         (add_worker s \<lparr>w_id = uuid4, w_status = ''Ready'',
                                        w_last_heartbeat = Some now,
                                        w_current_task_id = None\<rparr>)
                  else Inr (s, worker_id_arg)) of
              Inl e \<Rightarrow> (Raised e, s)
            | Inr (s1, worker_id) \<Rightarrow>
                (case get_worker s1 worker_id of
                   None \<Rightarrow> (Response (JError ''Worker not found'') 404, s1)
                 | Some worker \<Rightarrow>
                     (case next_pending s1 of
                        None \<Rightarrow> (Response (JMessage ''No available tasks'') 404, s1)
                      | Some task \<Rightarrow>
                          (Response (JTaskAssigned (t_id task)) 200,
                           put_worker (worker\<lparr>w_status := ''Busy'',
                                              w_current_task_id := Some (t_id task)\<rparr>)
                             (put_task (task\<lparr>t_status := ''rendering'',
                                             t_worker_id := Some worker_id\<rparr>) s1))))))"

text \<open>
  \<^verbatim>\<open>update_worker_status\<close> (lines 163-176). \<open>status_arg\<close> is the \<^verbatim>\<open>status\<close>
  entry of the request body, \<open>None\<close> when it is absent.
\<close>

definition update_worker_status :: "db \<Rightarrow> string \<Rightarrow> string option \<Rightarrow> response \<times> db" where
  "update_worker_status s worker_id status_arg =
     (case get_worker s worker_id of
        None \<Rightarrow> (Response (JError ''Worker not found'') 404, s)
      | Some worker \<Rightarrow>
          (case status_arg of
             None \<Rightarrow> (Response (JError ''Invalid status'') 400, s)
           | Some status \<Rightarrow>
               if status \<notin> set [''Ready'', ''Busy'', ''Offline'']
               then (Response (JError ''Invalid status'') 400, s)
               else
                 (case (if status \<noteq> ''Offline'' then map_sum id Some datetime
                        else Inr None) of
                    Inl e \<Rightarrow> (Raised e, s)
                  | Inr hb \<Rightarrow>
                      (Response (JWorkerStatus status) 200,
                       put_worker (worker\<lparr>w_status := status, w_last_heartbeat := hb\<rparr>) s))))"

text \<open>
  \<^verbatim>\<open>update_render_status\<close> (lines 181-198). \<open>status_arg\<close> and \<open>progress_arg\<close> are
  the entries of the request body, \<open>None\<close> when absent; \<^verbatim>\<open>if status:\<close> holds for a
  string that is not empty. Neither value is checked against anything.
\<close>

definition update_render_status ::
  "db \<Rightarrow> string \<Rightarrow> string option \<Rightarrow> real option \<Rightarrow> response \<times> db" where
  "update_render_status s task_id status_arg progress_arg =
     (case get_task s task_id of
        None \<Rightarrow> (Response (JError ''Task not found'') 404, s)
      | Some task \<Rightarrow>
          (let task1 = (case status_arg of
                          Some status \<Rightarrow> if status \<noteq> [] then task\<lparr>t_status := status\<rparr> else task
                        | None \<Rightarrow> task);
               task2 = (case progress_arg of
                          Some progress \<Rightarrow> task1\<lparr>t_progress := progress\<rparr>
                        | None \<Rightarrow> task1)
           in case datetime of
                Inl e \<Rightarrow> (Raised e, s)
              | Inr d \<Rightarrow>
                  (Response (JStatusProgress (t_status task2) (t_progress task2)) 200,
                   put_task (task2\<lparr>t_updated_at := d\<rparr>) s)))"

text \<open>\<^verbatim>\<open>complete_render\<close> (lines 203-213). It reads and writes no worker.\<close>

definition complete_render :: "db \<Rightarrow> string \<Rightarrow> response \<times> db" where
  "complete_render s task_id =
     (case get_task s task_id of
        None \<Rightarrow> (Response (JError ''Task not found'') 404, s)
      | Some task \<Rightarrow>
          (case datetime of
             Inl e \<Rightarrow> (Raised e, s)
           | Inr d \<Rightarrow>
               (Response JCompleted 200,
                put_task (task\<lparr>t_status := ''Completed'', t_updated_at := d\<rparr>) s)))"

text \<open>\<^verbatim>\<open>worker_heartbeat\<close> (lines 218-227).\<close>

definition worker_heartbeat :: "db \<Rightarrow> string \<Rightarrow> response \<times> db" where
  "worker_heartbeat s worker_id =
     (case get_worker s worker_id of
        None \<Rightarrow> (Response (JError ''Worker not found'') 404, s)
      | Some worker \<Rightarrow>
          (case datetime of
             Inl e \<Rightarrow> (Raised e, s)
           | Inr d \<Rightarrow>
               (Response JHeartbeat 200, put_worker (worker\<lparr>w_last_heartbeat := Some d\<rparr>) s)))"

section \<open>The background sweep\<close>

text \<open>
  The query of line 41: the workers whose \<^verbatim>\<open>last_heartbeat\<close> is before
  \<^verbatim>\<open>datetime.now() - timedelta(seconds=30)\<close>. A \<^verbatim>\<open>NULL\<close> heartbeat compares as
  unknown and the row is not selected. The status of the worker is not looked at.
\<close>

definition failed_workers :: "db \<Rightarrow> time \<Rightarrow> Worker list" where
  "failed_workers s now =
     filter (\<lambda>w. case w_last_heartbeat w of None \<Rightarrow> False | Some h \<Rightarrow> h < now - 30)
       (workers s)"

text \<open>
  The loop of lines 45-48: one call of \<^verbatim>\<open>worker_request_task\<close> for each failed
  worker, its response thrown away. \<open>clock i\<close> and \<open>uuids i\<close> are the clock reading
  and the fresh identifier of the \<open>i\<close>-th call. An exception leaves the loop.
\<close>

fun sweep_loop ::
  "db \<Rightarrow> (nat \<Rightarrow> time) \<Rightarrow> (nat \<Rightarrow> string) \<Rightarrow> nat \<Rightarrow> Worker list \<Rightarrow> exn option \<times> db" where
  "sweep_loop s clock uuids i [] = (None, s)"
| "sweep_loop s clock uuids i (w # ws) =
     (case worker_request_task s (clock i) (uuids i) (w_id w) of
        (Raised e, s') \<Rightarrow> (Some e, s')
      | (Response b c, s') \<Rightarrow> sweep_loop s' clock uuids (Suc i) ws)"

text \<open>
  \<^verbatim>\<open>check_worker_failures\<close> (lines 40-48); \<open>now\<close> is the clock reading of line 41.
  The result is the exception that ended the sweep, if any, and the database after it.
\<close>

definition check_worker_failures ::
  "db \<Rightarrow> time \<Rightarrow> (nat \<Rightarrow> time) \<Rightarrow> (nat \<Rightarrow> string) \<Rightarrow> exn option \<times> db" where
  "check_worker_failures s now clock uuids =
     (let failed = failed_workers s now in
      if failed = []
      then (case worker_request_task s (clock 0) (uuids 0) [] of
              (Raised e, s') \<Rightarrow> (Some e, s')
            | (Response b c, s') \<Rightarrow> sweep_loop s' clock uuids 1 failed)
      else sweep_loop s clock uuids 0 failed)"

section \<open>Calls and runs\<close>

text \<open>
  One request to the service, with the values the handler reads from its environment
  (clock, fresh identifier, request body), named after the operation it serves.
\<close>

datatype call =
    SubmitTask time string "string option"
  | ListTasks
  | GetTask string
  | ListWorkers
  | RequestTask time string string
  | UpdateWorkerStatus string "string option"
  | UpdateTaskStatus string "string option" "real option"
  | CompleteTask string
  | Heartbeat string

fun handle :: "db \<Rightarrow> call \<Rightarrow> response \<times> db" where
  "handle s (SubmitTask import_time task_id priority_arg) =
     create_render s import_time task_id priority_arg"
| "handle s ListTasks = get_renders s"
| "handle s (GetTask task_id) = get_render_status s task_id"
| "handle s ListWorkers = get_workers s"
| "handle s (RequestTask now uuid4 worker_id) = worker_request_task s now uuid4 worker_id"
| "handle s (UpdateWorkerStatus worker_id status_arg) =
     update_worker_status s worker_id status_arg"
| "handle s (UpdateTaskStatus task_id status_arg progress_arg) =
     update_render_status s task_id status_arg progress_arg"
| "handle s (CompleteTask task_id) = complete_render s task_id"
| "handle s (Heartbeat worker_id) = worker_heartbeat s worker_id"

text \<open>
  An event is a request or one pass of the loop body of \<^verbatim>\<open>worker_loop\<close> (line 54). A
  run applies events, one after the other, to the database.
\<close>

datatype event = Call call | Sweep time "nat \<Rightarrow> time" "nat \<Rightarrow> string"

fun step :: "db \<Rightarrow> event \<Rightarrow> db" where
  "step s (Call c) = snd (handle s c)"
| "step s (Sweep now clock uuids) = snd (check_worker_failures s now clock uuids)"

fun run :: "db \<Rightarrow> event list \<Rightarrow> db" where
  "run s [] = s"
| "run s (e # es) = run (step s e) es"

text \<open>
  The responses that report a failure to the caller: an exception, or a status code of
  the 4xx and 5xx classes.
\<close>

fun is_error :: "response \<Rightarrow> bool" where
  "is_error (Raised e) = True"
| "is_error (Response b c) = (400 \<le> c)"

text \<open>
  The binding between tasks and workers: a task has status \<^verbatim>\<open>rendering\<close> exactly when
  its \<^verbatim>\<open>worker_id\<close> is set and names a worker whose \<^verbatim>\<open>current_task_id\<close> is the task,
  and a task of any other status has no \<^verbatim>\<open>worker_id\<close>.
\<close>

definition bound_to_worker :: "db \<Rightarrow> RenderTask \<Rightarrow> bool" where
  "bound_to_worker s t =
     (case t_worker_id t of
        None \<Rightarrow> False
      | Some wid \<Rightarrow>
          (case get_worker s wid of
             None \<Rightarrow> False
           | Some w \<Rightarrow> w_current_task_id w = Some (t_id t)))"

definition task_worker_consistent :: "db \<Rightarrow> bool" where
  "task_worker_consistent s =
     (\<forall>t \<in> set (tasks s).
        ((t_status t = ''rendering'') = bound_to_worker s t) \<and>
        (t_status t \<noteq> ''rendering'' \<longrightarrow> t_worker_id t = None))"

section \<open>Example states\<close>

text \<open>Two pending tasks of one priority; the first row was created later.\<close>

definition ex_task_a :: RenderTask where
  "ex_task_a =
     \<lparr>t_id = ''a'', t_status = ''pending'', t_priority = ''MEDIUM'', t_progress = 0,
      t_created_at = 10, t_updated_at = 10, t_worker_id = None\<rparr>"

definition ex_task_b :: RenderTask where
  "ex_task_b =
     \<lparr>t_id = ''b'', t_status = ''pending'', t_priority = ''MEDIUM'', t_progress = 0,
      t_created_at = 5, t_updated_at = 5, t_worker_id = None\<rparr>"

definition ex_ties :: db where
  "ex_ties =
     \<lparr>tasks = [ex_task_a, ex_task_b],
      workers =
        [\<lparr>w_id = ''w'', w_status = ''Ready'', w_last_heartbeat = Some 10,
          w_current_task_id = None\<rparr>]\<rparr>"

text \<open>
  Three pending tasks, submitted in the order \<open>low\<close>, \<open>rush1\<close>, \<open>rush2\<close>, and one
  ready worker. It is the state after \<open>ex_mixed_calls\<close>.
\<close>

definition ex_mixed :: db where
  "ex_mixed =
     \<lparr>tasks =
        [\<lparr>t_id = ''low'', t_status = ''pending'', t_priority = ''LOW'', t_progress = 0,
          t_created_at = 0, t_updated_at = 0, t_worker_id = None\<rparr>,
         \<lparr>t_id = ''rush1'', t_status = ''pending'', t_priority = ''RUSH'', t_progress = 0,
          t_created_at = 0, t_updated_at = 0, t_worker_id = None\<rparr>,
         \<lparr>t_id = ''rush2'', t_status = ''pending'', t_priority = ''RUSH'', t_progress = 0,
          t_created_at = 0, t_updated_at = 0, t_worker_id = None\<rparr>],
      workers =
        [\<lparr>w_id = ''w'', w_status = ''Ready'', w_last_heartbeat = Some 1,
          w_current_task_id = None\<rparr>]\<rparr>"

definition ex_mixed_calls :: "event list" where
  "ex_mixed_calls =
     [Call (RequestTask 1 ''w'' ''x''),
      Call (SubmitTask 0 ''low'' (Some ''LOW'')),
      Call (SubmitTask 0 ''rush1'' (Some ''RUSH'')),
      Call (SubmitTask 0 ''rush2'' (Some ''RUSH''))]"

text \<open>
  Worker \<open>w1\<close> renders task \<open>t2\<close>; worker \<open>w2\<close> is ready and holds nothing; task
  \<open>t1\<close> is pending.
\<close>

definition ex_busy :: db where
  "ex_busy =
     \<lparr>tasks =
        [\<lparr>t_id = ''t1'', t_status = ''pending'', t_priority = ''MEDIUM'', t_progress = 0,
          t_created_at = 0, t_updated_at = 0, t_worker_id = None\<rparr>,
         \<lparr>t_id = ''t2'', t_status = ''rendering'', t_priority = ''RUSH'', t_progress = 0,
          t_created_at = 0, t_updated_at = 0, t_worker_id = Some ''w1''\<rparr>],
      workers =
        [\<lparr>w_id = ''w1'', w_status = ''Busy'', w_last_heartbeat = None,
          w_current_task_id = Some ''t2''\<rparr>,
         \<lparr>w_id = ''w2'', w_status = ''Ready'', w_last_heartbeat = Some 1,
          w_current_task_id = None\<rparr>]\<rparr>"

text \<open>The requests that lead from the empty database to \<open>ex_busy\<close>.\<close>

definition ex_busy_calls :: "event list" where
  "ex_busy_calls =
     [Call (RequestTask 0 ''w1'' ''x''),
      Call (UpdateWorkerStatus ''w1'' (Some ''Offline'')),
      Call (RequestTask 1 ''w2'' ''x''),
      Call (SubmitTask 0 ''t1'' None),
      Call (SubmitTask 0 ''t2'' (Some ''RUSH'')),
      Call (RequestTask 2 ''u'' ''w1'')]"

text \<open>
  Worker \<open>w1\<close> renders task \<open>t1\<close> and last sent a heartbeat at time 0. It is the state
  after \<open>ex_stale_calls\<close>.
\<close>

definition ex_stale :: db where
  "ex_stale =
     \<lparr>tasks =
        [\<lparr>t_id = ''t1'', t_status = ''rendering'', t_priority = ''MEDIUM'', t_progress = 0,
          t_created_at = 0, t_updated_at = 0, t_worker_id = Some ''w1''\<rparr>],
      workers =
        [\<lparr>w_id = ''w1'', w_status = ''Busy'', w_last_heartbeat = Some 0,
          w_current_task_id = Some ''t1''\<rparr>]\<rparr>"

definition ex_stale_calls :: "event list" where
  "ex_stale_calls =
     [Call (SubmitTask 0 ''t1'' None),
      Call (RequestTask 0 ''w1'' ''x'')]"




section \<open>Evaluation\<close>

lemmas db_defs = get_task_def get_worker_def add_task_def add_worker_def put_task_def
  put_worker_def next_pending_def order_key_def ordering_def PRIORITY_def datetime_def

lemmas handler_defs = create_render_def get_renders_def get_render_status_def
  get_workers_def worker_request_task_def update_worker_status_def
  update_render_status_def complete_render_def worker_heartbeat_def

section \<open>The selection of the next task\<close>

lemma find_filter_Cons: "filter P xs = y # ys \<Longrightarrow> find P xs = Some y"
  by (induction xs) (auto split: if_splits)

lemma sort_key_Cons:
  fixes f :: "'a \<Rightarrow> nat"
  assumes "sort_key f xs = y # ys"
  shows "y \<in> set xs" and "\<forall>x\<in>set xs. f y \<le> f x" and "find (\<lambda>x. f x = f y) xs = Some y"
proof -
  have "set (sort_key f xs) = set xs" by simp
  with assms show mem: "y \<in> set xs" by auto
  have "sorted (map f (sort_key f xs))" by (rule sorted_sort_key)
  with assms have "\<forall>x\<in>set ys. f y \<le> f x" by simp
  moreover have "set xs = insert y (set ys)"
    using assms by (metis list.simps(15) set_sort)
  ultimately show "\<forall>x\<in>set xs. f y \<le> f x" by simp
  have "filter (\<lambda>x. f x = f y) (sort_key f xs) = filter (\<lambda>x. f x = f y) xs"
    by (rule sort_key_stable)
  with assms have "filter (\<lambda>x. f x = f y) xs = y # filter (\<lambda>x. f x = f y) ys" by simp
  then show "find (\<lambda>x. f x = f y) xs = Some y" by (rule find_filter_Cons)
qed

lemma find_filter: "find P (filter Q xs) = find (\<lambda>x. Q x \<and> P x) xs"
  by (induction xs) auto

lemma next_pending_None: "next_pending s = None \<longleftrightarrow> (\<forall>t\<in>set (tasks s). t_status t \<noteq> ''pending'')"
proof -
  have "(sort_key order_key (filter (\<lambda>t. t_status t = ''pending'') (tasks s)) = []) =
        (filter (\<lambda>t. t_status t = ''pending'') (tasks s) = [])"
    by (metis set_sort set_empty)
  then show ?thesis
    by (auto simp: next_pending_def filter_empty_conv split: list.splits)
qed

lemma next_pending_Some:
  assumes "next_pending s = Some t"
  shows "t \<in> set (tasks s)" and "t_status t = ''pending''"
    and "\<forall>u\<in>set (tasks s). t_status u = ''pending'' \<longrightarrow> order_key t \<le> order_key u"
    and "find (\<lambda>u. t_status u = ''pending'' \<and> order_key u = order_key t) (tasks s) = Some t"
proof -
  let ?ps = "filter (\<lambda>t. t_status t = ''pending'') (tasks s)"
  from assms obtain ys where srt: "sort_key order_key ?ps = t # ys"
    by (auto simp: next_pending_def split: list.splits)
  from sort_key_Cons(1)[OF srt] show "t \<in> set (tasks s)" and "t_status t = ''pending''" by auto
  from sort_key_Cons(2)[OF srt]
  show "\<forall>u\<in>set (tasks s). t_status u = ''pending'' \<longrightarrow> order_key t \<le> order_key u" by auto
  from sort_key_Cons(3)[OF srt]
  show "find (\<lambda>u. t_status u = ''pending'' \<and> order_key u = order_key t) (tasks s) = Some t"
    by (simp add: find_filter)
qed

lemma order_key_bands:
  "order_key u =
     (if t_priority u = ''RUSH'' then 1 else if t_priority u = ''HIGH'' then 2
      else if t_priority u = ''MEDIUM'' then 3 else if t_priority u = ''LOW'' then 4 else 0)"
  by (simp add: order_key_def ordering_def PRIORITY_def)

lemma request_assigns_next:
  assumes "worker_request_task s now uuid4 w = (Response (JTaskAssigned r) c, s')"
  shows "\<exists>t. next_pending s = Some t \<and> r = t_id t"
  using assms
  by (auto simp: worker_request_task_def Let_def add_worker_def next_pending_def
      split: if_splits sum.splits option.splits prod.splits)

text \<open>
  C1, as amended. Whenever some task is pending, the query of line 146 selects a pending
  task whose sort key is the least among the pending tasks, that is a task of the
  highest priority band present (\<open>RUSH\<close> before \<open>HIGH\<close> before \<open>MEDIUM\<close> before
  \<open>LOW\<close>); among the pending tasks with that key it is the first in the order in
  which the engine yields the rows, here table order; and a request that assigns a task
  assigns this one. \<^verbatim>\<open>created_at\<close> takes no part.
\<close>

theorem C1_priority_then_table_order:
  assumes "\<exists>u\<in>set (tasks s). t_status u = ''pending''"
  shows "\<exists>t. next_pending s = Some t \<and> t \<in> set (tasks s) \<and> t_status t = ''pending'' \<and>
           (\<forall>u\<in>set (tasks s). t_status u = ''pending'' \<longrightarrow> order_key t \<le> order_key u) \<and>
           find (\<lambda>u. t_status u = ''pending'' \<and> order_key u = order_key t) (tasks s) = Some t \<and>
           (\<forall>r c s'. worker_request_task s now uuid4 w = (Response (JTaskAssigned r) c, s')
              \<longrightarrow> r = t_id t) \<and>
           (\<forall>u. order_key u =
              (if t_priority u = ''RUSH'' then 1 else if t_priority u = ''HIGH'' then 2
               else if t_priority u = ''MEDIUM'' then 3
               else if t_priority u = ''LOW'' then 4 else 0))"
proof -
  from assms have "next_pending s \<noteq> None" by (simp add: next_pending_None)
  then obtain t where t: "next_pending s = Some t" by auto
  have "\<forall>r c s'. worker_request_task s now uuid4 w = (Response (JTaskAssigned r) c, s')
          \<longrightarrow> r = t_id t"
    using request_assigns_next t by fastforce
  with t next_pending_Some[OF t] order_key_bands show ?thesis by blast
qed

text \<open>
  The theorem at \<open>ex_mixed\<close>: of the tasks \<open>low\<close>, \<open>rush1\<close>, \<open>rush2\<close> the request
  of worker \<open>w\<close> gets \<open>rush1\<close>.
\<close>

theorem C1_witness:
  "run empty_db ex_mixed_calls = ex_mixed \<and>
   (\<exists>u\<in>set (tasks ex_mixed). t_status u = ''pending'') \<and>
   (\<exists>s'. worker_request_task ex_mixed 2 ''u'' ''w'' = (Response (JTaskAssigned ''rush1'') 200, s'))"
proof -
  have pending: "\<exists>u\<in>set (tasks ex_mixed). t_status u = ''pending''"
    by (simp add: ex_mixed_def)
  have "run empty_db ex_mixed_calls = ex_mixed"
    by (simp add: ex_mixed_calls_def ex_mixed_def empty_db_def handler_defs db_defs Let_def)
  moreover have "\<exists>s'. worker_request_task ex_mixed 2 ''u'' ''w'' =
      (Response (JTaskAssigned ''rush1'') 200, s')"
    using C1_priority_then_table_order [OF pending, of 2 "''u''" "''w''"]
    by (simp add: ex_mixed_def handler_defs db_defs)
  ultimately show ?thesis using pending by simp
qed

text \<open>
  C1 as claimed fails. The claim: among the pending tasks of one priority the one with
  the earliest \<^verbatim>\<open>created_at\<close> is selected. In \<open>ex_ties\<close> task \<open>a\<close> is assigned,
  although \<open>b\<close> is pending with the same priority and was created earlier.
\<close>

theorem C1_later_created_first:
  "next_pending ex_ties = Some ex_task_a \<and>
   fst (worker_request_task ex_ties 20 ''u'' ''w'') = Response (JTaskAssigned ''a'') 200 \<and>
   t_id ex_task_a = ''a'' \<and>
   ex_task_b \<in> set (tasks ex_ties) \<and>
   t_status ex_task_b = ''pending'' \<and>
   t_priority ex_task_b = t_priority ex_task_a \<and>
   t_created_at ex_task_b < t_created_at ex_task_a"
  by (simp add: ex_ties_def ex_task_a_def ex_task_b_def handler_defs db_defs)

section \<open>Requesting a task while another worker renders\<close>

text \<open>
  C2. The claim: a request of worker \<open>w\<close> is turned away as busy exactly when \<open>w\<close>
  itself holds a rendering task, whatever other workers hold. The code turns the request
  away as soon as any task is rendering. In \<open>ex_busy\<close>, which the calls
  \<open>ex_busy_calls\<close> produce from the empty database, worker \<open>w2\<close> is ready, no
  rendering task is bound to it and task \<open>t1\<close> is pending; its request is answered
  with \<^verbatim>\<open>Task is processing\<close> because \<open>w1\<close> renders \<open>t2\<close>.
\<close>

theorem C2_other_worker_blocks:
  "run empty_db ex_busy_calls = ex_busy \<and>
   filter (\<lambda>t. t_status t = ''rendering'' \<and> t_worker_id t = Some ''w2'') (tasks ex_busy) = [] \<and>
   worker_request_task ex_busy 3 ''u'' ''w2'' =
     (Response (JMessage ''Task is processing'') 404, ex_busy)"
  by (simp add: ex_busy_calls_def ex_busy_def empty_db_def handler_defs db_defs)

section \<open>The sweep over workers with a stale heartbeat\<close>

text \<open>
  C3. The claim: one sweep puts the task of a worker whose heartbeat is older than 30
  back to pending, with its worker cleared, and sets that worker offline. The code calls
  \<^verbatim>\<open>worker_request_task\<close> for the stale worker and does nothing else. In \<open>ex_stale\<close>
  the heartbeat of \<open>w1\<close> is 100 old at the sweep; the sweep leaves the database as it
  is: \<open>t1\<close> is still rendering for \<open>w1\<close> and \<open>w1\<close> is still busy.
\<close>

theorem C3_sweep_reclaims_nothing:
  "run empty_db ex_stale_calls = ex_stale \<and>
   failed_workers ex_stale 100 = workers ex_stale \<and>
   check_worker_failures ex_stale 100 clock uuids = (None, ex_stale)"
  by (simp add: ex_stale_calls_def ex_stale_def empty_db_def failed_workers_def
      check_worker_failures_def handler_defs db_defs)

section \<open>Completing a task\<close>

text \<open>
  C4, as amended. Completing a task leaves every worker row as it was, and completing
  a task id that is not in the table is answered with \<^verbatim>\<open>Task not found\<close> (404) and
  changes nothing.
\<close>

theorem C4_unknown_task_and_workers_untouched:
  "workers (snd (complete_render s task_id)) = workers s \<and>
   (get_task s task_id = None \<longrightarrow>
      complete_render s task_id = (Response (JError ''Task not found'') 404, s))"
  by (simp add: complete_render_def datetime_def split: option.splits)

text \<open>
  The theorem at \<open>ex_stale\<close> and the unknown task id \<open>t9\<close>.
\<close>

theorem C4_witness:
  "get_task ex_stale ''t9'' = None \<and>
   complete_render ex_stale ''t9'' = (Response (JError ''Task not found'') 404, ex_stale)"
  using C4_unknown_task_and_workers_untouched [of ex_stale "''t9''"]
  by (simp add: ex_stale_def get_task_def)

text \<open>
  C4 as claimed fails. The claim: completing a task that a worker renders sets that
  worker to \<^verbatim>\<open>Ready\<close> with no current task. In \<open>ex_stale\<close> task \<open>t1\<close> is rendering
  for \<open>w1\<close>; after \<^verbatim>\<open>complete_render\<close> worker \<open>w1\<close> is still \<^verbatim>\<open>Busy\<close> and still
  refers to \<open>t1\<close>.
\<close>

theorem C4_worker_stays_busy:
  "run empty_db ex_stale_calls = ex_stale \<and>
   get_task ex_stale ''t1'' =
     Some \<lparr>t_id = ''t1'', t_status = ''rendering'', t_priority = ''MEDIUM'', t_progress = 0,
           t_created_at = 0, t_updated_at = 0, t_worker_id = Some ''w1''\<rparr> \<and>
   get_worker (snd (complete_render ex_stale ''t1'')) ''w1'' =
     Some \<lparr>w_id = ''w1'', w_status = ''Busy'', w_last_heartbeat = Some 0,
           w_current_task_id = Some ''t1''\<rparr>"
  by (simp add: ex_stale_calls_def ex_stale_def empty_db_def handler_defs db_defs)

section \<open>The binding between tasks and workers\<close>

lemma get_worker_put_worker:
  "get_worker (put_worker w' s) k =
     (if k = w_id w' then map_option (\<lambda>_. w') (get_worker s k) else get_worker s k)"
proof -
  have "find (\<lambda>w. w_id w = k) (map (\<lambda>u. if w_id u = w_id w' then w' else u) ws) =
        (if k = w_id w' then map_option (\<lambda>_. w') (find (\<lambda>w. w_id w = k) ws)
         else find (\<lambda>w. w_id w = k) ws)" for ws
    by (induction ws) auto
  then show ?thesis by (simp add: get_worker_def put_worker_def)
qed

lemma get_worker_Some_id: "get_worker s k = Some w \<Longrightarrow> w_id w = k"
  by (auto simp: get_worker_def find_Some_iff)

lemma tasks_put_worker: "tasks (put_worker w s) = tasks s"
  by (simp add: put_worker_def)

lemma get_worker_put_task: "get_worker (put_task t s) k = get_worker s k"
  by (simp add: get_worker_def put_task_def)

lemma get_worker_tasks_update: "get_worker (s\<lparr>tasks := ts\<rparr>) k = get_worker s k"
  by (simp add: get_worker_def)

lemma tasks_put_task:
  "tasks (put_task t s) = map (\<lambda>u. if t_id u = t_id t then t else u) (tasks s)"
  by (simp add: put_task_def)

lemma bound_put_worker_same_task:
  assumes "get_worker s (w_id w') = Some w" and "w_current_task_id w' = w_current_task_id w"
  shows "bound_to_worker (put_worker w' s) t = bound_to_worker s t"
  using assms
  by (auto simp: bound_to_worker_def get_worker_put_worker split: option.splits)

lemma consistent_put_worker_same_task:
  assumes "task_worker_consistent s" and "get_worker s (w_id w') = Some w"
    and "w_current_task_id w' = w_current_task_id w"
  shows "task_worker_consistent (put_worker w' s)"
  using assms(1) bound_put_worker_same_task[OF assms(2,3)]
  by (simp add: task_worker_consistent_def tasks_put_worker)

lemma consistent_no_rendering:
  "task_worker_consistent s \<longleftrightarrow> (\<forall>t\<in>set (tasks s). t_worker_id t = None)"
  if "\<forall>t\<in>set (tasks s). t_status t \<noteq> ''rendering''"
  using that by (auto simp: task_worker_consistent_def bound_to_worker_def)

lemma consistent_assign:
  assumes cons: "task_worker_consistent s"
    and none: "find (\<lambda>t. t_status t = ''rendering'') (tasks s) = None"
    and w: "get_worker s k = Some worker"
  shows "task_worker_consistent
           (put_worker (worker\<lparr>w_status := ''Busy'', w_current_task_id := Some (t_id task)\<rparr>)
              (put_task (task\<lparr>t_status := ''rendering'', t_worker_id := Some k\<rparr>) s))"
proof -
  from none have nr: "\<forall>t\<in>set (tasks s). t_status t \<noteq> ''rendering''"
    by (auto simp: find_None_iff)
  with cons have free: "\<forall>t\<in>set (tasks s). t_worker_id t = None"
    by (simp add: consistent_no_rendering)
  have k: "w_id worker = k" using w by (rule get_worker_Some_id)
  show ?thesis
    unfolding task_worker_consistent_def
    using nr free w k
    by (auto simp: bound_to_worker_def get_worker_put_worker get_worker_put_task
        tasks_put_worker tasks_put_task)
qed

lemma consistent_add_worker:
  assumes "task_worker_consistent s" and "add_worker s w = Inr s'"
    and "find (\<lambda>t. t_status t = ''rendering'') (tasks s) = None"
  shows "task_worker_consistent s'"
proof -
  from assms(2) have t: "tasks s' = tasks s" by (auto simp: add_worker_def split: if_splits)
  from assms(3) have nr: "\<forall>t\<in>set (tasks s). t_status t \<noteq> ''rendering''"
    by (auto simp: find_None_iff)
  with assms(1) t show ?thesis by (simp add: consistent_no_rendering)
qed

lemma tasks_add_worker: "add_worker s w = Inr s' \<Longrightarrow> tasks s' = tasks s"
  by (auto simp: add_worker_def split: if_splits)

lemma consistent_worker_request_task:
  assumes "task_worker_consistent s"
  shows "task_worker_consistent (snd (worker_request_task s now uuid4 w))"
proof (cases "find (\<lambda>t. t_status t = ''rendering'') (tasks s)")
  case (Some a)
  then show ?thesis using assms by (simp add: worker_request_task_def)
next
  case None
  show ?thesis
  proof (cases "length (filter (\<lambda>w. w_status w = ''Ready'') (workers s)) = 0")
    case False
    with None assms show ?thesis
      by (auto simp: worker_request_task_def consistent_assign split: option.splits)
  next
    case True
    show ?thesis
    proof (cases "add_worker s \<lparr>w_id = uuid4, w_status = ''Ready'',
                   w_last_heartbeat = Some now, w_current_task_id = None\<rparr>")
      case (Inl e)
      with True None assms show ?thesis by (simp add: worker_request_task_def)
    next
      case (Inr s1)
      have "task_worker_consistent s1" using assms Inr None by (rule consistent_add_worker)
      moreover have "find (\<lambda>t. t_status t = ''rendering'') (tasks s1) = None"
        using None tasks_add_worker[OF Inr] by simp
      ultimately show ?thesis using True None Inr
        by (auto simp: worker_request_task_def consistent_assign split: option.splits)
    qed
  qed
qed

lemma bound_tasks_update: "bound_to_worker (s\<lparr>tasks := ts\<rparr>) t = bound_to_worker s t"
  by (simp add: bound_to_worker_def get_worker_tasks_update split: option.splits)

lemma consistent_append_pending:
  assumes "task_worker_consistent s" and "t_status t = ''pending''" and "t_worker_id t = None"
  shows "task_worker_consistent (s\<lparr>tasks := tasks s @ [t]\<rparr>)"
proof -
  have "\<not> bound_to_worker s t" using assms(3) by (simp add: bound_to_worker_def)
  with assms show ?thesis
    by (auto simp: task_worker_consistent_def bound_tasks_update)
qed

lemma create_render_cases:
  "snd (create_render s import_time task_id priority_arg) = s \<or>
   snd (create_render s import_time task_id priority_arg) =
     s\<lparr>tasks := tasks s @
        [\<lparr>t_id = task_id, t_status = ''pending'',
          t_priority = (case priority_arg of None \<Rightarrow> ''MEDIUM'' | Some p \<Rightarrow> p),
          t_progress = 0, t_created_at = import_time, t_updated_at = import_time,
          t_worker_id = None\<rparr>]\<rparr>"
  by (simp add: create_render_def Let_def add_task_def)

lemma consistent_create_render:
  assumes "task_worker_consistent s"
  shows "task_worker_consistent (snd (create_render s import_time task_id priority_arg))"
  using create_render_cases[of s import_time task_id priority_arg] assms
  by (auto simp: consistent_append_pending)

lemma consistent_update_worker_status:
  assumes "task_worker_consistent s"
  shows "task_worker_consistent (snd (update_worker_status s worker_id status_arg))"
proof (cases "get_worker s worker_id")
  case None
  with assms show ?thesis by (simp add: update_worker_status_def)
next
  case (Some worker)
  then have "w_id worker = worker_id" by (rule get_worker_Some_id)
  with Some have "task_worker_consistent (put_worker (worker\<lparr>w_status := st, w_last_heartbeat := hb\<rparr>) s)"
    for st hb
    using assms by (intro consistent_put_worker_same_task[where w = worker]) simp_all
  with Some assms show ?thesis
    by (auto simp: update_worker_status_def datetime_def split: option.splits)
qed

lemma unchanged_by_datetime:
  "snd (update_render_status s task_id status_arg progress_arg) = s"
  "snd (complete_render s task_id) = s"
  "snd (worker_heartbeat s worker_id) = s"
  by (simp_all add: update_render_status_def complete_render_def worker_heartbeat_def
      datetime_def Let_def split: option.splits)

lemma consistent_handle:
  "task_worker_consistent s \<Longrightarrow> task_worker_consistent (snd (handle s c))"
  by (cases c)
    (simp_all add: consistent_create_render consistent_worker_request_task
      consistent_update_worker_status unchanged_by_datetime
      get_renders_def get_workers_def get_render_status_def split: option.splits)

lemma consistent_sweep_loop:
  "task_worker_consistent s \<Longrightarrow> task_worker_consistent (snd (sweep_loop s clock uuids i ws))"
proof (induction ws arbitrary: s i)
  case Nil
  then show ?case by simp
next
  case (Cons w ws)
  from Cons.prems
  have "task_worker_consistent (snd (worker_request_task s (clock i) (uuids i) (w_id w)))"
    by (rule consistent_worker_request_task)
  with Cons.IH show ?case
    by (auto split: prod.splits response.splits)
qed

lemma consistent_check_worker_failures:
  assumes "task_worker_consistent s"
  shows "task_worker_consistent (snd (check_worker_failures s now clock uuids))"
proof -
  have "task_worker_consistent (snd (worker_request_task s (clock 0) (uuids 0) []))"
    using assms by (rule consistent_worker_request_task)
  with assms show ?thesis
    by (auto simp: check_worker_failures_def Let_def consistent_sweep_loop
        split: prod.splits response.splits)
qed

lemma consistent_step: "task_worker_consistent s \<Longrightarrow> task_worker_consistent (step s e)"
  by (cases e) (simp_all add: consistent_handle consistent_check_worker_failures)

lemma consistent_run: "task_worker_consistent s \<Longrightarrow> task_worker_consistent (run s es)"
  by (induction es arbitrary: s) (simp_all add: consistent_step)

text \<open>
  C5. In every state that a sequence of requests and sweeps reaches from the empty
  database, a task is rendering exactly when its \<^verbatim>\<open>worker_id\<close> is set and that worker's
  \<^verbatim>\<open>current_task_id\<close> is the task's id, and a task of any other status has no
  \<^verbatim>\<open>worker_id\<close>.
\<close>

theorem C5_reachable_states_consistent:
  "task_worker_consistent (run empty_db es)"
  by (rule consistent_run) (simp add: task_worker_consistent_def empty_db_def)

text \<open>
  The theorem at the run \<open>ex_busy_calls\<close>, which ends in \<open>ex_busy\<close>, where task
  \<open>t2\<close> is rendering and bound to \<open>w1\<close>.
\<close>

theorem C5_witness:
  "run empty_db ex_busy_calls = ex_busy \<and> task_worker_consistent ex_busy \<and>
   bound_to_worker ex_busy (tasks ex_busy ! 1) \<and> t_status (tasks ex_busy ! 1) = ''rendering''"
proof -
  have r: "run empty_db ex_busy_calls = ex_busy"
    by (simp add: ex_busy_calls_def ex_busy_def empty_db_def handler_defs db_defs)
  with C5_reachable_states_consistent [of ex_busy_calls]
  have "task_worker_consistent ex_busy" by simp
  moreover have "bound_to_worker ex_busy (tasks ex_busy ! 1) \<and>
      t_status (tasks ex_busy ! 1) = ''rendering''"
    by (simp add: ex_busy_def bound_to_worker_def get_worker_def)
  ultimately show ?thesis using r by simp
qed

section \<open>What an error response leaves behind\<close>

lemma worker_request_task_cases:
  "snd (worker_request_task s now uuid4 w) = s \<or>
   (filter (\<lambda>w. w_status w = ''Ready'') (workers s) = [] \<and>
    snd (worker_request_task s now uuid4 w) =
      s\<lparr>workers := workers s @ [\<lparr>w_id = uuid4, w_status = ''Ready'',
           w_last_heartbeat = Some now, w_current_task_id = None\<rparr>]\<rparr>) \<or>
   (\<exists>r. fst (worker_request_task s now uuid4 w) = Response (JTaskAssigned r) 200)"
  by (auto simp: worker_request_task_def add_worker_def split: option.splits)

text \<open>
  C6, as amended. When a request is answered with an error (an exception or a status
  code from 400 on), the database is as it was before the request, with one exception:
  a task request made while no worker is \<^verbatim>\<open>Ready\<close> has added one new \<^verbatim>\<open>Ready\<close>
  worker, and nothing else, before its error answer.
\<close>

theorem C6_errors_change_no_task:
  assumes "is_error (fst (handle s c))"
  shows "snd (handle s c) = s \<or>
         (\<exists>now uuid4 w. c = RequestTask now uuid4 w \<and>
            filter (\<lambda>w. w_status w = ''Ready'') (workers s) = [] \<and>
            snd (handle s c) =
              s\<lparr>workers := workers s @ [\<lparr>w_id = uuid4, w_status = ''Ready'',
                   w_last_heartbeat = Some now, w_current_task_id = None\<rparr>]\<rparr>)"
proof (cases c)
  case (SubmitTask i k p)
  with assms show ?thesis
    by (auto simp: create_render_def Let_def split: sum.splits if_splits)
next
  case (RequestTask now uuid4 w)
  with assms worker_request_task_cases[of s now uuid4 w] show ?thesis by auto
next
  case (UpdateWorkerStatus k st)
  with assms show ?thesis
    by (auto simp: update_worker_status_def datetime_def split: option.splits if_splits)
qed (simp_all add: get_renders_def get_render_status_def get_workers_def
      update_render_status_def complete_render_def worker_heartbeat_def datetime_def Let_def
      split: option.splits)

text \<open>
  The theorem at \<open>ex_busy\<close>: the request of \<open>w2\<close> is answered with an error and the
  database is unchanged.
\<close>

theorem C6_witness:
  "is_error (fst (handle ex_busy (RequestTask 3 ''u'' ''w2''))) \<and>
   snd (handle ex_busy (RequestTask 3 ''u'' ''w2'')) = ex_busy"
proof -
  have e: "is_error (fst (handle ex_busy (RequestTask 3 ''u'' ''w2'')))"
    by (simp add: ex_busy_def handler_defs db_defs)
  from C6_errors_change_no_task [OF e] e show ?thesis
    by (simp add: ex_busy_def)
qed

text \<open>
  C6 as claimed fails. The claim: a request that ends in an error creates no worker
  record. A task request on the empty database is answered with
  \<^verbatim>\<open>No available tasks\<close> (404), and the worker table, empty before, holds the new
  worker \<open>u1\<close> afterwards.
\<close>

theorem C6_error_after_new_worker:
  "worker_request_task empty_db 0 ''u1'' ''w'' =
     (Response (JMessage ''No available tasks'') 404,
      \<lparr>tasks = [],
       workers = [\<lparr>w_id = ''u1'', w_status = ''Ready'', w_last_heartbeat = Some 0,
                   w_current_task_id = None\<rparr>]\<rparr>) \<and>
   is_error (Response (JMessage ''No available tasks'') 404) \<and>
   workers empty_db = []"
  by (simp add: empty_db_def handler_defs db_defs)

section \<open>Updating the status of a task\<close>

text \<open>
  C7, as amended. An update for a task id that is not in the table is answered with
  \<^verbatim>\<open>Task not found\<close> (404) and changes nothing. No update is answered with status
  code 400: neither the status nor the progress is validated. An update changes no
  worker, and of no task the id, priority, \<^verbatim>\<open>created_at\<close> or \<^verbatim>\<open>worker_id\<close>; it
  changes no status when the request has none and no progress when the request has
  none.
\<close>

theorem C7_unknown_task_no_validation_frame:
  "(get_task s task_id = None \<longrightarrow>
      update_render_status s task_id status_arg progress_arg =
        (Response (JError ''Task not found'') 404, s)) \<and>
   (\<forall>b. fst (update_render_status s task_id status_arg progress_arg) \<noteq> Response b 400) \<and>
   workers (snd (update_render_status s task_id status_arg progress_arg)) = workers s \<and>
   map t_id (tasks (snd (update_render_status s task_id status_arg progress_arg))) =
     map t_id (tasks s) \<and>
   map t_priority (tasks (snd (update_render_status s task_id status_arg progress_arg))) =
     map t_priority (tasks s) \<and>
   map t_created_at (tasks (snd (update_render_status s task_id status_arg progress_arg))) =
     map t_created_at (tasks s) \<and>
   map t_worker_id (tasks (snd (update_render_status s task_id status_arg progress_arg))) =
     map t_worker_id (tasks s) \<and>
   (status_arg = None \<longrightarrow>
      map t_status (tasks (snd (update_render_status s task_id status_arg progress_arg))) =
        map t_status (tasks s)) \<and>
   (progress_arg = None \<longrightarrow>
      map t_progress (tasks (snd (update_render_status s task_id status_arg progress_arg))) =
        map t_progress (tasks s))"
  by (simp add: update_render_status_def datetime_def Let_def split: option.splits)

text \<open>
  The theorem at \<open>ex_stale\<close> and the unknown task id \<open>t9\<close>.
\<close>

theorem C7_witness:
  "get_task ex_stale ''t9'' = None \<and>
   update_render_status ex_stale ''t9'' (Some ''rendering'') None =
     (Response (JError ''Task not found'') 404, ex_stale)"
  using C7_unknown_task_no_validation_frame [of ex_stale "''t9''" "Some ''rendering''" None]
  by (simp add: ex_stale_def get_task_def)

text \<open>
  C7 as claimed fails. The claim: an unrecognised status or a progress outside
  \<open>[0,1]\<close> is rejected as an invalid argument, and an update with only a progress
  refreshes \<^verbatim>\<open>updated_at\<close>. For the known task \<open>t1\<close> both updates end in
  \<^verbatim>\<open>TypeError\<close>, none in a rejection of the argument, and \<^verbatim>\<open>updated_at\<close> stays 0.
\<close>

theorem C7_no_invalid_argument_no_refresh:
  "update_render_status ex_stale ''t1'' (Some ''no such status'') (Some 2) =
     (Raised TypeError, ex_stale) \<and>
   update_render_status ex_stale ''t1'' None (Some (1 / 2)) = (Raised TypeError, ex_stale) \<and>
   map t_updated_at (tasks ex_stale) = [0]"
  by (simp add: ex_stale_def handler_defs db_defs)

section \<open>Heartbeats\<close>

text \<open>
  C8. The claim: a heartbeat of a known worker sets its \<^verbatim>\<open>last_heartbeat\<close> to the
  time of the call. The code builds the timestamp with \<^verbatim>\<open>datetime()\<close>, which raises;
  the heartbeat of the known worker \<open>w1\<close> ends in \<^verbatim>\<open>TypeError\<close> and the stored
  heartbeat stays what it was.
\<close>

theorem C8_heartbeat_raises:
  "run empty_db ex_stale_calls = ex_stale \<and>
   worker_heartbeat ex_stale ''w1'' = (Raised TypeError, ex_stale)"
  by (simp add: ex_stale_calls_def ex_stale_def empty_db_def handler_defs db_defs)

section \<open>Requesting a task when none is pending\<close>




section \<open>Listing and lookup\<close>

text \<open>
  C10. Listing the tasks, looking one task up and listing the workers leave the database
  as it was, whether or not the lookup finds its task.
\<close>

theorem C10_reads_change_nothing:
  "snd (get_renders s) = s \<and> snd (get_render_status s task_id) = s \<and> snd (get_workers s) = s"
  by (simp add: get_renders_def get_render_status_def get_workers_def split: option.split)


end
